theory Spec2Isabelle
  imports Main "HOL-Library.Multiset" "HOL-Library.Char_ord" "HOL-Library.List_Lexorder"
begin

section \<open>JSON values\<close>

text \<open>
  The request and response bodies of \<^verbatim>\<open>load_balancer.go\<close> are JSON documents. A document
  is kept as its value tree: an object is the list of its members in document order, a
  number literal is an integer (every numeric field of this file is a Go \<^verbatim>\<open>int\<close>).
\<close>

datatype json =
    JNull
  | JBool bool
  | JNumber int
  | JString string
  | JArray "json list"
  | JObject "(string \<times> json) list"

definition members :: "json \<Rightarrow> (string \<times> json) list" where
  "members j = (case j of JObject kvs \<Rightarrow> kvs | _ \<Rightarrow> [])"

definition has_key :: "string \<Rightarrow> json \<Rightarrow> bool" where
  "has_key k j = (k \<in> set (map fst (members j)))"

text \<open>The value of the member named \<open>k\<close>; of a repeated name the last member counts.\<close>

definition member :: "string \<Rightarrow> (string \<times> json) list \<Rightarrow> json option" where
  "member k kvs = map_of (rev kvs) k"

section \<open>The data model\<close>

text \<open>
  One record per struct of the source, the fields in the source's order. A pointer field
  is an \<open>option\<close> (\<open>None\<close> is \<^verbatim>\<open>nil\<close>); a slice is an optional list (\<open>None\<close> is the
  \<^verbatim>\<open>nil\<close> slice, \<open>Some []\<close> the empty one, which \<^verbatim>\<open>encoding/json\<close> writes
  differently). No arithmetic is done on the integer fields, so they are kept as \<open>int\<close>.
\<close>

record HealthCheck =
  hc_Protocol :: string
  hc_Port :: int
  hc_Path :: string
  hc_CheckInterval :: int
  hc_ResponseTimeout :: int
  hc_UnhealthyThreshold :: int
  hc_HealthyThreshold :: int

record StickySessions =
  ss_StickySessionsEnabled :: string
  ss_CookieName :: string

record GenericInfo =
  gi_BalancingAlgorithm :: string
  gi_SSLRedirect :: bool
  gi_StickySessions :: "StickySessions option"
  gi_ProxyProtocol :: string

record ForwardingRule =
  fr_RuleID :: string
  fr_FrontendProtocol :: string
  fr_FrontendPort :: int
  fr_BackendProtocol :: string
  fr_BackendPort :: int

record SSL =
  ssl_PrivateKey :: string
  ssl_Certificate :: string
  ssl_Chain :: string

record LoadBalancer =
  lb_ID :: string
  lb_DateCreated :: string
  lb_Region :: string
  lb_Label :: string
  lb_Status :: string
  lb_IPV4 :: string
  lb_IPV6 :: string
  lb_Instances :: "string list option"
  lb_HealthCheck :: "HealthCheck option"
  lb_GenericInfo :: "GenericInfo option"
  lb_SSLInfo :: bool
  lb_ForwardingRules :: "ForwardingRule list option"

record LoadBalancerReq =
  req_Region :: string
  req_Label :: string
  req_Instances :: "string list option"
  req_HealthCheck :: "HealthCheck option"
  req_StickySessions :: "StickySessions option"
  req_ForwardingRules :: "ForwardingRule list option"
  req_SSL :: "SSL option"
  req_SSLRedirect :: bool
  req_ProxyProtocol :: bool
  req_BalancingAlgorithm :: string

text \<open>The zero value of the write-model: what \<^verbatim>\<open>LoadBalancerReq{}\<close> is in Go.\<close>

definition zero_LoadBalancerReq :: LoadBalancerReq where
  "zero_LoadBalancerReq =
     \<lparr>req_Region = [], req_Label = [], req_Instances = None, req_HealthCheck = None,
      req_StickySessions = None, req_ForwardingRules = None, req_SSL = None,
      req_SSLRedirect = False, req_ProxyProtocol = False, req_BalancingAlgorithm = []\<rparr>"

definition zero_HealthCheck :: HealthCheck where
  "zero_HealthCheck =
     \<lparr>hc_Protocol = [], hc_Port = 0, hc_Path = [], hc_CheckInterval = 0,
      hc_ResponseTimeout = 0, hc_UnhealthyThreshold = 0, hc_HealthyThreshold = 0\<rparr>"

definition zero_StickySessions :: StickySessions where
  "zero_StickySessions = \<lparr>ss_StickySessionsEnabled = [], ss_CookieName = []\<rparr>"

definition zero_SSL :: SSL where
  "zero_SSL = \<lparr>ssl_PrivateKey = [], ssl_Certificate = [], ssl_Chain = []\<rparr>"

section \<open>Serialising the write-model\<close>

text \<open>
  The struct tags decide the wire form. A field tagged \<^verbatim>\<open>omitempty\<close> is left out when
  it is empty: \<^verbatim>\<open>false\<close>, \<^verbatim>\<open>0\<close>, the empty string, a \<^verbatim>\<open>nil\<close> pointer, a
  slice of length zero. A field without \<^verbatim>\<open>omitempty\<close> is always written; a
  \<^verbatim>\<open>nil\<close> slice is then written as \<^verbatim>\<open>null\<close>.
\<close>

definition omitempty_string :: "string \<Rightarrow> string \<Rightarrow> (string \<times> json) list" where
  "omitempty_string k s = (if s = [] then [] else [(k, JString s)])"

definition omitempty_int :: "string \<Rightarrow> int \<Rightarrow> (string \<times> json) list" where
  "omitempty_int k n = (if n = 0 then [] else [(k, JNumber n)])"

definition omitempty_bool :: "string \<Rightarrow> bool \<Rightarrow> (string \<times> json) list" where
  "omitempty_bool k b = (if b then [(k, JBool b)] else [])"

definition omitempty_ptr :: "string \<Rightarrow> ('a \<Rightarrow> json) \<Rightarrow> 'a option \<Rightarrow> (string \<times> json) list" where
  "omitempty_ptr k enc p = (case p of None \<Rightarrow> [] | Some x \<Rightarrow> [(k, enc x)])"

definition omitempty_slice ::
    "string \<Rightarrow> ('a \<Rightarrow> json) \<Rightarrow> 'a list option \<Rightarrow> (string \<times> json) list" where
  "omitempty_slice k enc s =
     (case s of
        None \<Rightarrow> []
      | Some xs \<Rightarrow> (if xs = [] then [] else [(k, JArray (map enc xs))]))"

definition plain_slice :: "string \<Rightarrow> ('a \<Rightarrow> json) \<Rightarrow> 'a list option \<Rightarrow> (string \<times> json) list" where
  "plain_slice k enc s =
     [(k, case s of None \<Rightarrow> JNull | Some xs \<Rightarrow> JArray (map enc xs))]"

definition HealthCheck_json :: "HealthCheck \<Rightarrow> json" where
  "HealthCheck_json h = JObject
     (omitempty_string ''protocol'' (hc_Protocol h)
      @ omitempty_int ''port'' (hc_Port h)
      @ omitempty_string ''path'' (hc_Path h)
      @ omitempty_int ''check_interval'' (hc_CheckInterval h)
      @ omitempty_int ''response_timeout'' (hc_ResponseTimeout h)
      @ omitempty_int ''unhealthy_threshold'' (hc_UnhealthyThreshold h)
      @ omitempty_int ''healthy_threshold'' (hc_HealthyThreshold h))"

definition StickySessions_json :: "StickySessions \<Rightarrow> json" where
  "StickySessions_json s = JObject
     (omitempty_string ''sticky_sessions'' (ss_StickySessionsEnabled s)
      @ omitempty_string ''cookie_name'' (ss_CookieName s))"

definition ForwardingRule_json :: "ForwardingRule \<Rightarrow> json" where
  "ForwardingRule_json f = JObject
     (omitempty_string ''id'' (fr_RuleID f)
      @ omitempty_string ''frontend_protocol'' (fr_FrontendProtocol f)
      @ omitempty_int ''frontend_port'' (fr_FrontendPort f)
      @ omitempty_string ''backend_protocol'' (fr_BackendProtocol f)
      @ omitempty_int ''backend_port'' (fr_BackendPort f))"

definition SSL_json :: "SSL \<Rightarrow> json" where
  "SSL_json s = JObject
     (omitempty_string ''ssl_private_key'' (ssl_PrivateKey s)
      @ omitempty_string ''ssl_certificate'' (ssl_Certificate s)
      @ omitempty_string ''chain'' (ssl_Chain s))"

definition LoadBalancerReq_json :: "LoadBalancerReq \<Rightarrow> json" where
  "LoadBalancerReq_json r = JObject
     (omitempty_string ''region'' (req_Region r)
      @ omitempty_string ''label'' (req_Label r)
      @ plain_slice ''instances'' JString (req_Instances r)
      @ omitempty_ptr ''health_check'' HealthCheck_json (req_HealthCheck r)
      @ omitempty_ptr ''sticky_session'' StickySessions_json (req_StickySessions r)
      @ omitempty_slice ''forwarding_rules'' ForwardingRule_json (req_ForwardingRules r)
      @ omitempty_ptr ''ssl'' SSL_json (req_SSL r)
      @ omitempty_bool ''ssl_redirect'' (req_SSLRedirect r)
      @ omitempty_bool ''proxy_protocol'' (req_ProxyProtocol r)
      @ omitempty_string ''balancing_algorithm'' (req_BalancingAlgorithm r))"

section \<open>Resource addressing\<close>

text \<open>
  Every path of the source is built by \<^verbatim>\<open>fmt.Sprintf\<close> from a literal format and
  string operands. The model covers the verbs \<^verbatim>\<open>%s\<close> and \<^verbatim>\<open>%v\<close> (the operand as
  it is), \<^verbatim>\<open>%%\<close>, and what \<^verbatim>\<open>fmt\<close> prints for a missing operand, for operands
  left over and for a verb a string does not support; flags, widths and argument indexes
  are not covered. \<^verbatim>\<open>Sprintf\<close> returns a string and nothing else: it has no error result.
\<close>

fun join :: "string \<Rightarrow> string list \<Rightarrow> string" where
  "join sep [] = []"
| "join sep [x] = x"
| "join sep (x # y # zs) = x @ sep @ join sep (y # zs)"

definition extra_operands :: "string list \<Rightarrow> string" where
  "extra_operands args =
     (if args = [] then []
      else ''%!(EXTRA '' @ join '', '' (map (\<lambda>a. ''string='' @ a) args) @ '')'')"

fun Sprintf :: "string \<Rightarrow> string list \<Rightarrow> string" where
  "Sprintf [] args = extra_operands args"
| "Sprintf [c] args = (if c = CHR ''%'' then ''%!(NOVERB)'' else [c]) @ extra_operands args"
| "Sprintf (c # d # fs) args =
     (if c \<noteq> CHR ''%'' then c # Sprintf (d # fs) args
      else if d = CHR ''%'' then CHR ''%'' # Sprintf fs args
      else (case args of
              [] \<Rightarrow> ''%!'' @ [d] @ ''(MISSING)'' @ Sprintf fs []
            | a # rest \<Rightarrow>
                (if d = CHR ''s'' \<or> d = CHR ''v'' then a
                 else ''%!'' @ [d] @ ''(string='' @ a @ '')'') @ Sprintf fs rest))"

definition lbPath :: string where
  "lbPath = ''/v2/load-balancers''"

text \<open>The \<^verbatim>\<open>uri\<close> of each operation that builds one, as its first statement builds it.\<close>

definition Get_uri :: "string \<Rightarrow> string" where
  "Get_uri ID = Sprintf ''%s/%s'' [lbPath, ID]"

definition Update_uri :: "string \<Rightarrow> string" where
  "Update_uri ID = Sprintf ''%s/%s'' [lbPath, ID]"

definition Delete_uri :: "string \<Rightarrow> string" where
  "Delete_uri ID = Sprintf ''%s/%s'' [lbPath, ID]"

definition CreateForwardingRule_uri :: "string \<Rightarrow> string" where
  "CreateForwardingRule_uri ID = Sprintf ''%s/%s/forwarding-rules'' [lbPath, ID]"

definition GetForwardingRule_uri :: "string \<Rightarrow> string \<Rightarrow> string" where
  "GetForwardingRule_uri ID ruleID = Sprintf ''%s/%s/forwarding-rules/%s'' [lbPath, ID, ruleID]"

definition ListForwardingRules_uri :: "string \<Rightarrow> string" where
  "ListForwardingRules_uri ID = Sprintf ''%s/%s/forwarding-rules'' [lbPath, ID]"

definition DeleteForwardingRule_uri :: "string \<Rightarrow> string \<Rightarrow> string" where
  "DeleteForwardingRule_uri ID RuleID = Sprintf ''%s/%s/forwarding-rules/%s'' [lbPath, ID, RuleID]"

section \<open>The Transport\<close>

text \<open>
  \<^verbatim>\<open>Client.NewRequest\<close> and \<^verbatim>\<open>Client.DoWithContext\<close> are declared in another file
  of the package. The operations are therefore stated for an arbitrary client: a request
  builder, which may fail, and an exchange with the server, which changes the world
  \<open>'w\<close> behind the API and gives back an error, or the body of a success response
  (\<open>None\<close> when that body is not a JSON document). An error value is of one of the
  kinds of section 7 of the spec.
\<close>

datatype error =
    RequestBuildError string
  | TransportError string
  | RemoteError int string
  | DecodeError string

datatype http_method = MethodGet | MethodPost | MethodPatch | MethodDelete

record URL =
  Path :: string
  RawQuery :: string

record Request =
  Method :: http_method
  URL :: URL
  Body :: "json option"

text \<open>
  The \<^verbatim>\<open>body\<close> argument of \<^verbatim>\<open>NewRequest\<close> is an \<^verbatim>\<open>interface{}\<close>; this file passes
  the untyped \<^verbatim>\<open>nil\<close>, a \<^verbatim>\<open>*LoadBalancerReq\<close> or a \<^verbatim>\<open>*ForwardingRule\<close>.
\<close>

datatype body =
    NilBody
  | LoadBalancerReqBody "LoadBalancerReq option"
  | ForwardingRuleBody "ForwardingRule option"

record 'w Client =
  NewRequest :: "http_method \<Rightarrow> string \<Rightarrow> body \<Rightarrow> error + Request"
  Exchange :: "Request \<Rightarrow> 'w \<Rightarrow> (error + json option) \<times> 'w"

text \<open>
  Modelled from the spec: \<^verbatim>\<open>Client.DoWithContext\<close> is not in the source file. Section 6
  gives its contract, \<^verbatim>\<open>execute(context, Request, out *Envelope) -> error\<close>, with a
  decode failure among its errors. It runs the exchange once; with a \<^verbatim>\<open>nil\<close> target
  (\<open>dec = None\<close>) the body is not read; otherwise the body is decoded into the target
  \<open>out\<close>. The result is the error (\<open>None\<close> is \<^verbatim>\<open>nil\<close>) and what the target holds
  afterwards.
\<close>

definition syntax_error :: error where
  "syntax_error = DecodeError ''invalid character''"

definition DoWithContext ::
    "'w Client \<Rightarrow> Request \<Rightarrow> (json \<Rightarrow> error + 'a) option \<Rightarrow> 'a \<Rightarrow> 'w
       \<Rightarrow> (error option \<times> 'a) \<times> 'w" where
  "DoWithContext cl req dec out w =
     (case Exchange cl req w of
        (Inl err, w') \<Rightarrow> ((Some err, out), w')
      | (Inr resp, w') \<Rightarrow>
          (case dec of
             None \<Rightarrow> ((None, out), w')
           | Some d \<Rightarrow>
               (case resp of
                  None \<Rightarrow> ((Some syntax_error, out), w')
                | Some j \<Rightarrow>
                    (case d j of
                       Inl err \<Rightarrow> ((Some err, out), w')
                     | Inr v \<Rightarrow> ((None, v), w')))))"

section \<open>Reading the envelopes\<close>

text \<open>
  The decoders \<^verbatim>\<open>DoWithContext\<close> is handed: what \<^verbatim>\<open>encoding/json\<close> reads into the
  structs of the source, whose tags name the members (section 4.3 (b) and (c) of the spec
  say the same of a present and of a missing member). Every target of this file is
  freshly allocated, so a field whose member is missing keeps its zero value. A
  \<^verbatim>\<open>null\<close> leaves a value as it is and makes a pointer or a slice \<^verbatim>\<open>nil\<close>; a value
  of the wrong kind is a decode failure; members that no field names are skipped. A
  member's name is compared with the tag byte for byte: \<^verbatim>\<open>encoding/json\<close> would also
  take a name that differs from the tag in letter case only, and such names are not
  modelled.
\<close>

definition type_error :: error where
  "type_error = DecodeError ''json: cannot unmarshal''"

definition and_then :: "error + 'a \<Rightarrow> ('a \<Rightarrow> error + 'b) \<Rightarrow> error + 'b" where
  "and_then r f = (case r of Inl err \<Rightarrow> Inl err | Inr x \<Rightarrow> f x)"

definition Unmarshal_string :: "json \<Rightarrow> error + string" where
  "Unmarshal_string j =
     (case j of JNull \<Rightarrow> Inr [] | JString s \<Rightarrow> Inr s | _ \<Rightarrow> Inl type_error)"

definition Unmarshal_int :: "json \<Rightarrow> error + int" where
  "Unmarshal_int j =
     (case j of
        JNull \<Rightarrow> Inr 0
      | JNumber n \<Rightarrow>
          (if - (2 ^ 63) \<le> n \<and> n < 2 ^ 63 then Inr n else Inl type_error)
      | _ \<Rightarrow> Inl type_error)"

definition Unmarshal_bool :: "json \<Rightarrow> error + bool" where
  "Unmarshal_bool j =
     (case j of JNull \<Rightarrow> Inr False | JBool b \<Rightarrow> Inr b | _ \<Rightarrow> Inl type_error)"

fun Unmarshal_elements :: "(json \<Rightarrow> error + 'a) \<Rightarrow> json list \<Rightarrow> error + 'a list" where
  "Unmarshal_elements dec [] = Inr []"
| "Unmarshal_elements dec (j # js) =
     and_then (dec j) (\<lambda>x. and_then (Unmarshal_elements dec js) (\<lambda>xs. Inr (x # xs)))"

definition Unmarshal_slice :: "(json \<Rightarrow> error + 'a) \<Rightarrow> json \<Rightarrow> error + 'a list option" where
  "Unmarshal_slice dec j =
     (case j of
        JNull \<Rightarrow> Inr None
      | JArray js \<Rightarrow> and_then (Unmarshal_elements dec js) (\<lambda>xs. Inr (Some xs))
      | _ \<Rightarrow> Inl type_error)"

definition Unmarshal_ptr :: "(json \<Rightarrow> error + 'a) \<Rightarrow> json \<Rightarrow> error + 'a option" where
  "Unmarshal_ptr dec j =
     (case j of JNull \<Rightarrow> Inr None | _ \<Rightarrow> and_then (dec j) (\<lambda>x. Inr (Some x)))"

definition Unmarshal_struct ::
    "'a \<Rightarrow> ((string \<times> json) list \<Rightarrow> error + 'a) \<Rightarrow> json \<Rightarrow> error + 'a" where
  "Unmarshal_struct z of_members j =
     (case j of JNull \<Rightarrow> Inr z | JObject kvs \<Rightarrow> of_members kvs | _ \<Rightarrow> Inl type_error)"

definition field ::
    "(json \<Rightarrow> error + 'a) \<Rightarrow> 'a \<Rightarrow> (string \<times> json) list \<Rightarrow> string \<Rightarrow> error + 'a" where
  "field dec z kvs k = (case member k kvs of None \<Rightarrow> Inr z | Some v \<Rightarrow> dec v)"

definition zero_ForwardingRule :: ForwardingRule where
  "zero_ForwardingRule =
     \<lparr>fr_RuleID = [], fr_FrontendProtocol = [], fr_FrontendPort = 0,
      fr_BackendProtocol = [], fr_BackendPort = 0\<rparr>"

definition zero_GenericInfo :: GenericInfo where
  "zero_GenericInfo =
     \<lparr>gi_BalancingAlgorithm = [], gi_SSLRedirect = False, gi_StickySessions = None,
      gi_ProxyProtocol = []\<rparr>"

definition zero_LoadBalancer :: LoadBalancer where
  "zero_LoadBalancer =
     \<lparr>lb_ID = [], lb_DateCreated = [], lb_Region = [], lb_Label = [], lb_Status = [],
      lb_IPV4 = [], lb_IPV6 = [], lb_Instances = None, lb_HealthCheck = None,
      lb_GenericInfo = None, lb_SSLInfo = False, lb_ForwardingRules = None\<rparr>"

definition Unmarshal_HealthCheck :: "json \<Rightarrow> error + HealthCheck" where
  "Unmarshal_HealthCheck = Unmarshal_struct zero_HealthCheck (\<lambda>kvs.
     and_then (field Unmarshal_string [] kvs ''protocol'') (\<lambda>protocol.
     and_then (field Unmarshal_int 0 kvs ''port'') (\<lambda>port.
     and_then (field Unmarshal_string [] kvs ''path'') (\<lambda>path.
     and_then (field Unmarshal_int 0 kvs ''check_interval'') (\<lambda>check_interval.
     and_then (field Unmarshal_int 0 kvs ''response_timeout'') (\<lambda>response_timeout.
     and_then (field Unmarshal_int 0 kvs ''unhealthy_threshold'') (\<lambda>unhealthy_threshold.
     and_then (field Unmarshal_int 0 kvs ''healthy_threshold'') (\<lambda>healthy_threshold.
     Inr \<lparr>hc_Protocol = protocol, hc_Port = port, hc_Path = path,
          hc_CheckInterval = check_interval, hc_ResponseTimeout = response_timeout,
          hc_UnhealthyThreshold = unhealthy_threshold,
          hc_HealthyThreshold = healthy_threshold\<rparr>))))))))"

definition Unmarshal_StickySessions :: "json \<Rightarrow> error + StickySessions" where
  "Unmarshal_StickySessions = Unmarshal_struct zero_StickySessions (\<lambda>kvs.
     and_then (field Unmarshal_string [] kvs ''sticky_sessions'') (\<lambda>enabled.
     and_then (field Unmarshal_string [] kvs ''cookie_name'') (\<lambda>cookie_name.
     Inr \<lparr>ss_StickySessionsEnabled = enabled, ss_CookieName = cookie_name\<rparr>)))"

definition Unmarshal_GenericInfo :: "json \<Rightarrow> error + GenericInfo" where
  "Unmarshal_GenericInfo = Unmarshal_struct zero_GenericInfo (\<lambda>kvs.
     and_then (field Unmarshal_string [] kvs ''balancing_algorithm'') (\<lambda>algorithm.
     and_then (field Unmarshal_bool False kvs ''ssl_redirect'') (\<lambda>ssl_redirect.
     and_then (field (Unmarshal_ptr Unmarshal_StickySessions) None kvs ''sticky_sessions'')
       (\<lambda>sticky.
     and_then (field Unmarshal_string [] kvs ''proxy_protocol'') (\<lambda>proxy_protocol.
     Inr \<lparr>gi_BalancingAlgorithm = algorithm, gi_SSLRedirect = ssl_redirect,
          gi_StickySessions = sticky, gi_ProxyProtocol = proxy_protocol\<rparr>)))))"

definition Unmarshal_ForwardingRule :: "json \<Rightarrow> error + ForwardingRule" where
  "Unmarshal_ForwardingRule = Unmarshal_struct zero_ForwardingRule (\<lambda>kvs.
     and_then (field Unmarshal_string [] kvs ''id'') (\<lambda>rule_id.
     and_then (field Unmarshal_string [] kvs ''frontend_protocol'') (\<lambda>frontend_protocol.
     and_then (field Unmarshal_int 0 kvs ''frontend_port'') (\<lambda>frontend_port.
     and_then (field Unmarshal_string [] kvs ''backend_protocol'') (\<lambda>backend_protocol.
     and_then (field Unmarshal_int 0 kvs ''backend_port'') (\<lambda>backend_port.
     Inr \<lparr>fr_RuleID = rule_id, fr_FrontendProtocol = frontend_protocol,
          fr_FrontendPort = frontend_port, fr_BackendProtocol = backend_protocol,
          fr_BackendPort = backend_port\<rparr>))))))"

definition Unmarshal_LoadBalancer :: "json \<Rightarrow> error + LoadBalancer" where
  "Unmarshal_LoadBalancer = Unmarshal_struct zero_LoadBalancer (\<lambda>kvs.
     and_then (field Unmarshal_string [] kvs ''id'') (\<lambda>id.
     and_then (field Unmarshal_string [] kvs ''date_created'') (\<lambda>date_created.
     and_then (field Unmarshal_string [] kvs ''region'') (\<lambda>region.
     and_then (field Unmarshal_string [] kvs ''label'') (\<lambda>label.
     and_then (field Unmarshal_string [] kvs ''status'') (\<lambda>status.
     and_then (field Unmarshal_string [] kvs ''ipv4'') (\<lambda>ipv4.
     and_then (field Unmarshal_string [] kvs ''ipv6'') (\<lambda>ipv6.
     and_then (field (Unmarshal_slice Unmarshal_string) None kvs ''instances'') (\<lambda>instances.
     and_then (field (Unmarshal_ptr Unmarshal_HealthCheck) None kvs ''health_check'')
       (\<lambda>health_check.
     and_then (field (Unmarshal_ptr Unmarshal_GenericInfo) None kvs ''generic_info'')
       (\<lambda>generic_info.
     and_then (field Unmarshal_bool False kvs ''has_ssl'') (\<lambda>has_ssl.
     and_then (field (Unmarshal_slice Unmarshal_ForwardingRule) None kvs ''forwarding_rules'')
       (\<lambda>forwarding_rules.
     Inr \<lparr>lb_ID = id, lb_DateCreated = date_created, lb_Region = region, lb_Label = label,
          lb_Status = status, lb_IPV4 = ipv4, lb_IPV6 = ipv6, lb_Instances = instances,
          lb_HealthCheck = health_check, lb_GenericInfo = generic_info,
          lb_SSLInfo = has_ssl, lb_ForwardingRules = forwarding_rules\<rparr>)))))))))))))"

text \<open>
  The four envelopes. \<^verbatim>\<open>Meta\<close> is declared in another file of the package: its type is
  the parameter \<open>'m\<close> and its decoding the parameter \<open>meta\<close> of the list operations.
\<close>

record 'm lbsBase =
  lbs_LoadBalancers :: "LoadBalancer list option"
  lbs_Meta :: "'m option"

record lbBase =
  lbb_LoadBalancer :: "LoadBalancer option"

record 'm lbRulesBase =
  lbrs_ForwardingRules :: "ForwardingRule list option"
  lbrs_Meta :: "'m option"


definition new_lbsBase :: "'m lbsBase" where
  "new_lbsBase = \<lparr>lbs_LoadBalancers = None, lbs_Meta = None\<rparr>"

definition new_lbBase :: lbBase where
  "new_lbBase = \<lparr>lbb_LoadBalancer = None\<rparr>"

definition new_lbRulesBase :: "'m lbRulesBase" where
  "new_lbRulesBase = \<lparr>lbrs_ForwardingRules = None, lbrs_Meta = None\<rparr>"


definition Unmarshal_lbsBase :: "(json \<Rightarrow> error + 'm) \<Rightarrow> json \<Rightarrow> error + 'm lbsBase" where
  "Unmarshal_lbsBase meta = Unmarshal_struct new_lbsBase (\<lambda>kvs.
     and_then (field (Unmarshal_slice Unmarshal_LoadBalancer) None kvs ''load_balancers'')
       (\<lambda>load_balancers.
     and_then (field (Unmarshal_ptr meta) None kvs ''meta'') (\<lambda>m.
     Inr \<lparr>lbs_LoadBalancers = load_balancers, lbs_Meta = m\<rparr>)))"

definition Unmarshal_lbBase :: "json \<Rightarrow> error + lbBase" where
  "Unmarshal_lbBase = Unmarshal_struct new_lbBase (\<lambda>kvs.
     and_then (field (Unmarshal_ptr Unmarshal_LoadBalancer) None kvs ''load_balancer'')
       (\<lambda>load_balancer.
     Inr \<lparr>lbb_LoadBalancer = load_balancer\<rparr>))"

definition Unmarshal_lbRulesBase ::
    "(json \<Rightarrow> error + 'm) \<Rightarrow> json \<Rightarrow> error + 'm lbRulesBase" where
  "Unmarshal_lbRulesBase meta = Unmarshal_struct new_lbRulesBase (\<lambda>kvs.
     and_then (field (Unmarshal_slice Unmarshal_ForwardingRule) None kvs ''forwarding_rules'')
       (\<lambda>forwarding_rules.
     and_then (field (Unmarshal_ptr meta) None kvs ''meta'') (\<lambda>m.
     Inr \<lparr>lbrs_ForwardingRules = forwarding_rules, lbrs_Meta = m\<rparr>)))"


section \<open>The query encoder\<close>

text \<open>
  Modelled from the spec: \<^verbatim>\<open>ListOptions\<close> is declared in another file of the package.
  Section 4.2 gives it a cursor token and a per-page size, section 6 names the
  parameters \<^verbatim>\<open>cursor\<close> and \<^verbatim>\<open>limit\<close>, and an absent or default option adds no
  parameter. \<^verbatim>\<open>query.Values\<close> takes the pointer: \<^verbatim>\<open>nil\<close> gives no parameter at all.
\<close>

record ListOptions =
  Cursor :: string
  PerPage :: int

definition zero_ListOptions :: ListOptions where
  "zero_ListOptions = \<lparr>Cursor = [], PerPage = 0\<rparr>"

text \<open>\<^verbatim>\<open>url.Values\<close> is a map from a name to its values: here the list of its entries.\<close>

type_synonym Values = "(string \<times> string list) list"

fun digits :: "nat \<Rightarrow> string" where
  "digits n =
     (if n < 10 then [''0123456789'' ! n]
      else digits (n div 10) @ [''0123456789'' ! (n mod 10)])"

declare digits.simps [simp del]

definition Itoa :: "int \<Rightarrow> string" where
  "Itoa i = (if i < 0 then CHR ''-'' # digits (nat (- i)) else digits (nat i))"

definition query_Values :: "ListOptions option \<Rightarrow> error + Values" where
  "query_Values options =
     (case options of
        None \<Rightarrow> Inr []
      | Some opt \<Rightarrow>
          Inr ((if Cursor opt = [] then [] else [(''cursor'', [Cursor opt])])
               @ (if PerPage opt = 0 then [] else [(''limit'', [Itoa (PerPage opt)])])))"

text \<open>
  \<^verbatim>\<open>Values.Encode\<close> sorts the names, and writes \<^verbatim>\<open>name=value\<close> for each value of each
  name, both escaped, with \<^verbatim>\<open>&\<close> between them.
\<close>

definition unreserved :: "char \<Rightarrow> bool" where
  "unreserved c =
     (let n = (of_char c :: nat)
      in (48 \<le> n \<and> n \<le> 57) \<or> (65 \<le> n \<and> n \<le> 90) \<or> (97 \<le> n \<and> n \<le> 122)
         \<or> c \<in> set ''-_.~'')"

definition escape_byte :: "char \<Rightarrow> string" where
  "escape_byte c =
     (if c = CHR '' '' then ''+''
      else if unreserved c then [c]
      else [CHR ''%'', ''0123456789ABCDEF'' ! ((of_char c :: nat) div 16),
            ''0123456789ABCDEF'' ! ((of_char c :: nat) mod 16)])"

definition QueryEscape :: "string \<Rightarrow> string" where
  "QueryEscape s = concat (map escape_byte s)"

definition Encode :: "Values \<Rightarrow> string" where
  "Encode v =
     join ''&''
       (concat (map (\<lambda>(k, vs). map (\<lambda>x. QueryEscape k @ ''='' @ QueryEscape x) vs)
                  (sort_key fst v)))"

section \<open>The operations\<close>

text \<open>
  An operation takes the world before the call and gives back what it returns, as the
  tuple of its Go results, and the world after. \<^verbatim>\<open>Create\<close>, \<^verbatim>\<open>List\<close> and
  \<^verbatim>\<open>ListForwardingRules\<close> hand \<^verbatim>\<open>DoWithContext\<close> the address of their envelope
  pointer: a body that is the literal \<^verbatim>\<open>null\<close> sets that pointer to \<^verbatim>\<open>nil\<close>, and
  the field access that follows panics.
\<close>

datatype 'a outcome = Returns 'a | NilDereference

definition Create ::
    "'w Client \<Rightarrow> LoadBalancerReq option \<Rightarrow> 'w
       \<Rightarrow> (LoadBalancer option \<times> error option) outcome \<times> 'w" where
  "Create cl createReq w =
     (case NewRequest cl MethodPost lbPath (LoadBalancerReqBody createReq) of
        Inl err \<Rightarrow> (Returns (None, Some err), w)
      | Inr req \<Rightarrow>
          (case DoWithContext cl req (Some (Unmarshal_ptr Unmarshal_lbBase))
                  (Some new_lbBase) w of
             ((Some err, lb), w') \<Rightarrow> (Returns (None, Some err), w')
           | ((None, lb), w') \<Rightarrow>
               (case lb of
                  None \<Rightarrow> (NilDereference, w')
                | Some b \<Rightarrow> (Returns (lbb_LoadBalancer b, None), w'))))"

definition Get ::
    "'w Client \<Rightarrow> string \<Rightarrow> 'w \<Rightarrow> (LoadBalancer option \<times> error option) \<times> 'w" where
  "Get cl ID w =
     (case NewRequest cl MethodGet (Get_uri ID) NilBody of
        Inl err \<Rightarrow> ((None, Some err), w)
      | Inr req \<Rightarrow>
          (case DoWithContext cl req (Some Unmarshal_lbBase) new_lbBase w of
             ((Some err, lb), w') \<Rightarrow> ((None, Some err), w')
           | ((None, lb), w') \<Rightarrow> ((lbb_LoadBalancer lb, None), w')))"

definition Update ::
    "'w Client \<Rightarrow> string \<Rightarrow> LoadBalancerReq option \<Rightarrow> 'w \<Rightarrow> error option \<times> 'w" where
  "Update cl ID updateReq w =
     (case NewRequest cl MethodPatch (Update_uri ID) (LoadBalancerReqBody updateReq) of
        Inl err \<Rightarrow> (Some err, w)
      | Inr req \<Rightarrow>
          (case DoWithContext cl req None () w of
             ((Some err, u), w') \<Rightarrow> (Some err, w')
           | ((None, u), w') \<Rightarrow> (None, w')))"


definition List ::
    "(json \<Rightarrow> error + 'm) \<Rightarrow> 'w Client \<Rightarrow> ListOptions option \<Rightarrow> 'w
       \<Rightarrow> (LoadBalancer list option \<times> 'm option \<times> error option) outcome \<times> 'w" where
  "List meta cl options w =
     (case NewRequest cl MethodGet lbPath NilBody of
        Inl err \<Rightarrow> (Returns (None, None, Some err), w)
      | Inr req \<Rightarrow>
          (case query_Values options of
             Inl err \<Rightarrow> (Returns (None, None, Some err), w)
           | Inr newValues \<Rightarrow>
               (case DoWithContext cl (req\<lparr>URL := (URL req)\<lparr>RawQuery := Encode newValues\<rparr>\<rparr>)
                       (Some (Unmarshal_ptr (Unmarshal_lbsBase meta))) (Some new_lbsBase) w of
                  ((Some err, lbs), w') \<Rightarrow> (Returns (None, None, Some err), w')
                | ((None, lbs), w') \<Rightarrow>
                    (case lbs of
                       None \<Rightarrow> (NilDereference, w')
                     | Some b \<Rightarrow> (Returns (lbs_LoadBalancers b, lbs_Meta b, None), w')))))"



definition ListForwardingRules ::
    "(json \<Rightarrow> error + 'm) \<Rightarrow> 'w Client \<Rightarrow> string \<Rightarrow> ListOptions option \<Rightarrow> 'w
       \<Rightarrow> (ForwardingRule list option \<times> 'm option \<times> error option) outcome \<times> 'w" where
  "ListForwardingRules meta cl ID options w =
     (case NewRequest cl MethodGet (ListForwardingRules_uri ID) NilBody of
        Inl err \<Rightarrow> (Returns (None, None, Some err), w)
      | Inr req \<Rightarrow>
          (case query_Values options of
             Inl err \<Rightarrow> (Returns (None, None, Some err), w)
           | Inr newValues \<Rightarrow>
               (case DoWithContext cl (req\<lparr>URL := (URL req)\<lparr>RawQuery := Encode newValues\<rparr>\<rparr>)
                       (Some (Unmarshal_ptr (Unmarshal_lbRulesBase meta)))
                       (Some new_lbRulesBase) w of
                  ((Some err, fwRules), w') \<Rightarrow> (Returns (None, None, Some err), w')
                | ((None, fwRules), w') \<Rightarrow>
                    (case fwRules of
                       None \<Rightarrow> (NilDereference, w')
                     | Some b \<Rightarrow>
                         (Returns (lbrs_ForwardingRules b, lbrs_Meta b, None), w')))))"


section \<open>Clients to run the operations on\<close>

text \<open>
  What a request builder puts on the wire for a \<^verbatim>\<open>body\<close> argument: nothing for the
  untyped \<^verbatim>\<open>nil\<close>, \<^verbatim>\<open>null\<close> for a \<^verbatim>\<open>nil\<close> pointer, the serialised struct
  otherwise.
\<close>

definition body_json :: "body \<Rightarrow> json option" where
  "body_json b =
     (case b of
        NilBody \<Rightarrow> None
      | LoadBalancerReqBody None \<Rightarrow> Some JNull
      | LoadBalancerReqBody (Some r) \<Rightarrow> Some (LoadBalancerReq_json r)
      | ForwardingRuleBody None \<Rightarrow> Some JNull
      | ForwardingRuleBody (Some f) \<Rightarrow> Some (ForwardingRule_json f))"

definition plain_request :: "http_method \<Rightarrow> string \<Rightarrow> body \<Rightarrow> Request" where
  "plain_request m uri b =
     \<lparr>Method = m, URL = \<lparr>Path = uri, RawQuery = []\<rparr>, Body = body_json b\<rparr>"

text \<open>
  Three mock clients over a world that counts the exchanges made: a server that answers
  every request with the same body, a request builder that always fails, and a server
  that always fails.
\<close>

definition replying :: "json option \<Rightarrow> nat Client" where
  "replying resp =
     \<lparr>NewRequest = (\<lambda>m uri b. Inr (plain_request m uri b)),
      Exchange = (\<lambda>req n. (Inr resp, Suc n))\<rparr>"


definition failing_exchange :: "error \<Rightarrow> nat Client" where
  "failing_exchange err =
     \<lparr>NewRequest = (\<lambda>m uri b. Inr (plain_request m uri b)),
      Exchange = (\<lambda>req n. (Inl err, Suc n))\<rparr>"

text \<open>
  A client that also keeps the requests it exchanges, in order: the log says what an
  operation sent, whatever the server answers.
\<close>

definition recording :: "'w Client \<Rightarrow> ('w \<times> Request list) Client" where
  "recording cl =
     \<lparr>NewRequest = NewRequest cl,
      Exchange = (\<lambda>req (w, sent).
         case Exchange cl req w of (r, w') \<Rightarrow> (r, (w', sent @ [req])))\<rparr>"

definition sent :: "'r \<times> ('w \<times> Request list) \<Rightarrow> Request list" where
  "sent result = snd (snd result)"

definition req_example :: LoadBalancerReq where
  "req_example =
     zero_LoadBalancerReq\<lparr>req_Region := ''ewr'', req_Instances := Some [''i-1'']\<rparr>"



definition not_found :: error where
  "not_found = RemoteError 404 ''not found''"

definition page_body :: json where
  "page_body = JObject
     [(''load_balancers'',
       JArray [JObject [(''id'', JString ''lb-2''), (''has_ssl'', JBool True)],
               JObject [(''id'', JString ''lb-1''), (''instances'', JArray [JString ''i-1''])]]),
      (''meta'', JObject [(''total'', JNumber 2)])]"

definition rules_page_body :: json where
  "rules_page_body = JObject
     [(''forwarding_rules'',
       JArray [JObject [(''id'', JString ''r-2''), (''frontend_port'', JNumber 443)],
               JObject [(''id'', JString ''r-1''), (''frontend_port'', JNumber 80)]]),
      (''meta'', JObject [(''total'', JNumber 2)])]"


definition page_options :: ListOptions where
  "page_options = \<lparr>Cursor = ''abc'', PerPage = 25\<rparr>"

section \<open>The serialised write-model\<close>

lemma in_keys_omitempty_string:
  "k' \<in> fst ` set (omitempty_string k s) \<longleftrightarrow> k' = k \<and> s \<noteq> []"
  by (simp add: omitempty_string_def)

lemma in_keys_omitempty_bool:
  "k' \<in> fst ` set (omitempty_bool k b) \<longleftrightarrow> k' = k \<and> b"
  by (cases b) (simp_all add: omitempty_bool_def)

lemma in_keys_omitempty_ptr:
  "k' \<in> fst ` set (omitempty_ptr k enc p) \<longleftrightarrow> k' = k \<and> p \<noteq> None"
  by (cases p) (simp_all add: omitempty_ptr_def)

lemma in_keys_omitempty_slice:
  "k' \<in> fst ` set (omitempty_slice k enc s) \<longleftrightarrow> k' = k \<and> s \<noteq> None \<and> s \<noteq> Some []"
proof (cases s)
  case None
  then show ?thesis by (simp add: omitempty_slice_def)
next
  case (Some xs)
  then show ?thesis by (cases xs) (simp_all add: omitempty_slice_def)
qed

lemma in_keys_plain_slice:
  "k' \<in> fst ` set (plain_slice k enc s) \<longleftrightarrow> k' = k"
  by (simp add: plain_slice_def)

lemmas in_keys =
  in_keys_omitempty_string in_keys_omitempty_bool
  in_keys_omitempty_ptr in_keys_omitempty_slice in_keys_plain_slice

lemma has_key_LoadBalancerReq_json:
  "has_key k (LoadBalancerReq_json r) \<longleftrightarrow>
     k \<in> fst ` set (omitempty_string ''region'' (req_Region r))
   \<or> k \<in> fst ` set (omitempty_string ''label'' (req_Label r))
   \<or> k \<in> fst ` set (plain_slice ''instances'' JString (req_Instances r))
   \<or> k \<in> fst ` set (omitempty_ptr ''health_check'' HealthCheck_json (req_HealthCheck r))
   \<or> k \<in> fst ` set (omitempty_ptr ''sticky_session'' StickySessions_json
                        (req_StickySessions r))
   \<or> k \<in> fst ` set (omitempty_slice ''forwarding_rules'' ForwardingRule_json
                        (req_ForwardingRules r))
   \<or> k \<in> fst ` set (omitempty_ptr ''ssl'' SSL_json (req_SSL r))
   \<or> k \<in> fst ` set (omitempty_bool ''ssl_redirect'' (req_SSLRedirect r))
   \<or> k \<in> fst ` set (omitempty_bool ''proxy_protocol'' (req_ProxyProtocol r))
   \<or> k \<in> fst ` set (omitempty_string ''balancing_algorithm'' (req_BalancingAlgorithm r))"
  unfolding has_key_def members_def LoadBalancerReq_json_def
  by (simp add: image_Un)

lemma has_key_health_check:
  "has_key ''health_check'' (LoadBalancerReq_json r) \<longleftrightarrow> req_HealthCheck r \<noteq> None"
  by (simp add: has_key_LoadBalancerReq_json in_keys)

lemma has_key_sticky_session:
  "has_key ''sticky_session'' (LoadBalancerReq_json r) \<longleftrightarrow> req_StickySessions r \<noteq> None"
  by (simp add: has_key_LoadBalancerReq_json in_keys)

lemma has_key_ssl:
  "has_key ''ssl'' (LoadBalancerReq_json r) \<longleftrightarrow> req_SSL r \<noteq> None"
  by (simp add: has_key_LoadBalancerReq_json in_keys)

lemma has_key_forwarding_rules:
  "has_key ''forwarding_rules'' (LoadBalancerReq_json r) \<longleftrightarrow>
     req_ForwardingRules r \<noteq> None \<and> req_ForwardingRules r \<noteq> Some []"
  by (simp add: has_key_LoadBalancerReq_json in_keys)

lemma has_key_ssl_redirect:
  "has_key ''ssl_redirect'' (LoadBalancerReq_json r) \<longleftrightarrow> req_SSLRedirect r"
  by (simp add: has_key_LoadBalancerReq_json in_keys)

lemma has_key_proxy_protocol:
  "has_key ''proxy_protocol'' (LoadBalancerReq_json r) \<longleftrightarrow> req_ProxyProtocol r"
  by (simp add: has_key_LoadBalancerReq_json in_keys)

lemma member_has_key: "(k, v) \<in> set (members j) \<Longrightarrow> has_key k j"
  by (force simp: has_key_def)

text \<open>
  C1. Whenever one of the optional fields HealthCheck, StickySessions, SSL or
  ForwardingRules of a write-model is unset (a nil pointer, a nil slice), the serialised
  request body has no member of that field's name; in particular an unset StickySessions
  never gives a member \<^verbatim>\<open>"sticky_session": null\<close>.
\<close>

theorem unset_optional_fields_omitted:
  "(req_HealthCheck r = None \<longrightarrow> \<not> has_key ''health_check'' (LoadBalancerReq_json r))
   \<and> (req_StickySessions r = None \<longrightarrow>
        \<not> has_key ''sticky_session'' (LoadBalancerReq_json r)
        \<and> (''sticky_session'', JNull) \<notin> set (members (LoadBalancerReq_json r)))
   \<and> (req_SSL r = None \<longrightarrow> \<not> has_key ''ssl'' (LoadBalancerReq_json r))
   \<and> (req_ForwardingRules r = None \<longrightarrow>
        \<not> has_key ''forwarding_rules'' (LoadBalancerReq_json r))"
proof (intro conjI impI)
  assume "req_HealthCheck r = None"
  then show "\<not> has_key ''health_check'' (LoadBalancerReq_json r)"
    by (simp add: has_key_health_check)
next
  assume unset: "req_StickySessions r = None"
  then show no_key: "\<not> has_key ''sticky_session'' (LoadBalancerReq_json r)"
    by (simp add: has_key_sticky_session)
  then show "(''sticky_session'', JNull) \<notin> set (members (LoadBalancerReq_json r))"
    using member_has_key by blast
next
  assume "req_SSL r = None"
  then show "\<not> has_key ''ssl'' (LoadBalancerReq_json r)"
    by (simp add: has_key_ssl)
next
  assume "req_ForwardingRules r = None"
  then show "\<not> has_key ''forwarding_rules'' (LoadBalancerReq_json r)"
    by (simp add: has_key_forwarding_rules)
qed

theorem unset_optional_fields_omitted_witness:
  "req_HealthCheck req_example = None
   \<and> req_StickySessions req_example = None
   \<and> req_SSL req_example = None
   \<and> req_ForwardingRules req_example = None
   \<and> LoadBalancerReq_json req_example =
       JObject [(''region'', JString ''ewr''), (''instances'', JArray [JString ''i-1''])]
   \<and> \<not> has_key ''health_check'' (LoadBalancerReq_json req_example)
   \<and> \<not> has_key ''sticky_session'' (LoadBalancerReq_json req_example)
   \<and> (''sticky_session'', JNull) \<notin> set (members (LoadBalancerReq_json req_example))
   \<and> \<not> has_key ''ssl'' (LoadBalancerReq_json req_example)
   \<and> \<not> has_key ''forwarding_rules'' (LoadBalancerReq_json req_example)"
  using unset_optional_fields_omitted [of req_example]
  by (simp add: req_example_def zero_LoadBalancerReq_def LoadBalancerReq_json_def
      omitempty_string_def omitempty_bool_def omitempty_ptr_def omitempty_slice_def
      plain_slice_def)

text \<open>
  C9. The serialised body of every write-model has the member \<^verbatim>\<open>instances\<close>: the field
  carries no \<^verbatim>\<open>omitempty\<close>, so an empty list is written as an empty array and an unset
  one as \<^verbatim>\<open>null\<close>.
\<close>

theorem instances_always_serialised:
  "has_key ''instances'' (LoadBalancerReq_json r)
   \<and> (''instances'', (case req_Instances r of
                          None \<Rightarrow> JNull
                        | Some xs \<Rightarrow> JArray (map JString xs)))
       \<in> set (members (LoadBalancerReq_json r))"
proof
  show "has_key ''instances'' (LoadBalancerReq_json r)"
    by (simp add: has_key_LoadBalancerReq_json in_keys)
  show "(''instances'', (case req_Instances r of
                          None \<Rightarrow> JNull
                        | Some xs \<Rightarrow> JArray (map JString xs)))
       \<in> set (members (LoadBalancerReq_json r))"
    by (simp add: LoadBalancerReq_json_def members_def plain_slice_def)
qed

lemma in_members_omitempty_bool:
  "(k', v) \<in> set (omitempty_bool k b) \<longleftrightarrow> k' = k \<and> b \<and> v = JBool True"
  by (cases b) (auto simp add: omitempty_bool_def)

lemma in_members_omitempty_string:
  "(k', v) \<in> set (omitempty_string k s) \<longleftrightarrow> k' = k \<and> s \<noteq> [] \<and> v = JString s"
  by (auto simp add: omitempty_string_def)

lemma in_members_omitempty_ptr:
  "(k', v) \<in> set (omitempty_ptr k enc p) \<longleftrightarrow> k' = k \<and> (\<exists>x. p = Some x \<and> v = enc x)"
  by (cases p) (auto simp add: omitempty_ptr_def)

lemma in_members_omitempty_slice:
  "(k', v) \<in> set (omitempty_slice k enc s) \<longleftrightarrow>
     k' = k \<and> (\<exists>xs. s = Some xs \<and> xs \<noteq> [] \<and> v = JArray (map enc xs))"
  by (cases s) (auto simp add: omitempty_slice_def)

lemma in_members_plain_slice:
  "(k', v) \<in> set (plain_slice k enc s) \<longleftrightarrow>
     k' = k \<and> v = (case s of None \<Rightarrow> JNull | Some xs \<Rightarrow> JArray (map enc xs))"
  by (auto simp add: plain_slice_def)

lemmas in_members =
  in_members_omitempty_bool in_members_omitempty_string in_members_omitempty_ptr
  in_members_omitempty_slice in_members_plain_slice

lemma members_LoadBalancerReq_json:
  "(k, v) \<in> set (members (LoadBalancerReq_json r)) \<longleftrightarrow>
     (k, v) \<in> set (omitempty_string ''region'' (req_Region r))
   \<or> (k, v) \<in> set (omitempty_string ''label'' (req_Label r))
   \<or> (k, v) \<in> set (plain_slice ''instances'' JString (req_Instances r))
   \<or> (k, v) \<in> set (omitempty_ptr ''health_check'' HealthCheck_json (req_HealthCheck r))
   \<or> (k, v) \<in> set (omitempty_ptr ''sticky_session'' StickySessions_json
                        (req_StickySessions r))
   \<or> (k, v) \<in> set (omitempty_slice ''forwarding_rules'' ForwardingRule_json
                        (req_ForwardingRules r))
   \<or> (k, v) \<in> set (omitempty_ptr ''ssl'' SSL_json (req_SSL r))
   \<or> (k, v) \<in> set (omitempty_bool ''ssl_redirect'' (req_SSLRedirect r))
   \<or> (k, v) \<in> set (omitempty_bool ''proxy_protocol'' (req_ProxyProtocol r))
   \<or> (k, v) \<in> set (omitempty_string ''balancing_algorithm'' (req_BalancingAlgorithm r))"
  unfolding members_def LoadBalancerReq_json_def
  by simp

lemma ssl_redirect_member:
  "(''ssl_redirect'', v) \<in> set (members (LoadBalancerReq_json r)) \<longleftrightarrow>
     req_SSLRedirect r \<and> v = JBool True"
  by (simp add: members_LoadBalancerReq_json in_members)

lemma proxy_protocol_member:
  "(''proxy_protocol'', v) \<in> set (members (LoadBalancerReq_json r)) \<longleftrightarrow>
     req_ProxyProtocol r \<and> v = JBool True"
  by (simp add: members_LoadBalancerReq_json in_members)

lemma health_check_member:
  "(''health_check'', v) \<in> set (members (LoadBalancerReq_json r)) \<longleftrightarrow>
     (\<exists>h. req_HealthCheck r = Some h \<and> v = HealthCheck_json h)"
  by (simp add: members_LoadBalancerReq_json in_members)

lemma sticky_session_member:
  "(''sticky_session'', v) \<in> set (members (LoadBalancerReq_json r)) \<longleftrightarrow>
     (\<exists>s. req_StickySessions r = Some s \<and> v = StickySessions_json s)"
  by (simp add: members_LoadBalancerReq_json in_members)

lemma ssl_member:
  "(''ssl'', v) \<in> set (members (LoadBalancerReq_json r)) \<longleftrightarrow>
     (\<exists>s. req_SSL r = Some s \<and> v = SSL_json s)"
  by (simp add: members_LoadBalancerReq_json in_members)

lemma zero_structs_json:
  "HealthCheck_json zero_HealthCheck = JObject []"
  "StickySessions_json zero_StickySessions = JObject []"
  "SSL_json zero_SSL = JObject []"
  by (simp_all add: HealthCheck_json_def zero_HealthCheck_def StickySessions_json_def
      zero_StickySessions_def SSL_json_def zero_SSL_def omitempty_string_def omitempty_int_def)

text \<open>
  C10, as stated, fails. The two flags are plain booleans tagged \<^verbatim>\<open>omitempty\<close>: a
  write-model whose flags were set to \<^verbatim>\<open>false\<close> is the write-model whose flags were
  never set, and neither puts \<^verbatim>\<open>ssl_redirect\<close> or \<^verbatim>\<open>proxy_protocol\<close> on the wire.
\<close>

theorem false_flag_counterexample:
  "LoadBalancerReq_json (zero_LoadBalancerReq\<lparr>req_SSLRedirect := False, req_ProxyProtocol := False\<rparr>)
     = LoadBalancerReq_json zero_LoadBalancerReq
   \<and> LoadBalancerReq_json (zero_LoadBalancerReq\<lparr>req_SSLRedirect := False, req_ProxyProtocol := False\<rparr>)
     = JObject [(''instances'', JNull)]
   \<and> \<not> has_key ''ssl_redirect''
        (LoadBalancerReq_json (zero_LoadBalancerReq\<lparr>req_SSLRedirect := False\<rparr>))
   \<and> \<not> has_key ''proxy_protocol''
        (LoadBalancerReq_json (zero_LoadBalancerReq\<lparr>req_ProxyProtocol := False\<rparr>))"
  by (simp add: zero_LoadBalancerReq_def LoadBalancerReq_json_def has_key_def members_def
      omitempty_string_def omitempty_bool_def omitempty_ptr_def omitempty_slice_def
      plain_slice_def)

lemma forwarding_rules_member:
  "(''forwarding_rules'', v) \<in> set (members (LoadBalancerReq_json r)) \<longleftrightarrow>
     (\<exists>xs. req_ForwardingRules r = Some xs \<and> xs \<noteq> []
        \<and> v = JArray (map ForwardingRule_json xs))"
  by (simp add: members_LoadBalancerReq_json in_members)

text \<open>
  C10, amended. Unset and zero are told apart on the wire for the pointer fields
  HealthCheck, StickySessions and SSL only: the member is written exactly when the
  pointer is not nil, its value is the serialised struct, and a pointer to a zero struct
  writes it as an empty object. The members \<^verbatim>\<open>ssl_redirect\<close> and
  \<^verbatim>\<open>proxy_protocol\<close> are written exactly when the flag is true, and the value written
  is \<^verbatim>\<open>true\<close>: they never carry \<^verbatim>\<open>false\<close>. The member \<^verbatim>\<open>forwarding_rules\<close> is
  written exactly when the slice has an element, as the array of its rules.
\<close>

theorem unset_and_zero_on_the_wire:
  "(has_key ''ssl_redirect'' (LoadBalancerReq_json r) \<longleftrightarrow> req_SSLRedirect r)
   \<and> (has_key ''proxy_protocol'' (LoadBalancerReq_json r) \<longleftrightarrow> req_ProxyProtocol r)
   \<and> (''ssl_redirect'', JBool False) \<notin> set (members (LoadBalancerReq_json r))
   \<and> (''proxy_protocol'', JBool False) \<notin> set (members (LoadBalancerReq_json r))
   \<and> (has_key ''health_check'' (LoadBalancerReq_json r) \<longleftrightarrow> req_HealthCheck r \<noteq> None)
   \<and> (has_key ''sticky_session'' (LoadBalancerReq_json r) \<longleftrightarrow> req_StickySessions r \<noteq> None)
   \<and> (has_key ''ssl'' (LoadBalancerReq_json r) \<longleftrightarrow> req_SSL r \<noteq> None)
   \<and> ((''health_check'', JObject []) \<in> set (members (LoadBalancerReq_json
          (r\<lparr>req_HealthCheck := Some zero_HealthCheck\<rparr>))))
   \<and> ((''sticky_session'', JObject []) \<in> set (members (LoadBalancerReq_json
          (r\<lparr>req_StickySessions := Some zero_StickySessions\<rparr>))))
   \<and> ((''ssl'', JObject []) \<in> set (members (LoadBalancerReq_json
          (r\<lparr>req_SSL := Some zero_SSL\<rparr>))))
   \<and> (has_key ''forwarding_rules'' (LoadBalancerReq_json r) \<longleftrightarrow>
        req_ForwardingRules r \<noteq> None \<and> req_ForwardingRules r \<noteq> Some [])
   \<and> ((''ssl_redirect'', v1) \<in> set (members (LoadBalancerReq_json r)) \<longleftrightarrow>
        req_SSLRedirect r \<and> v1 = JBool True)
   \<and> ((''proxy_protocol'', v2) \<in> set (members (LoadBalancerReq_json r)) \<longleftrightarrow>
        req_ProxyProtocol r \<and> v2 = JBool True)
   \<and> ((''health_check'', v3) \<in> set (members (LoadBalancerReq_json r)) \<longleftrightarrow>
        (\<exists>h. req_HealthCheck r = Some h \<and> v3 = HealthCheck_json h))
   \<and> ((''sticky_session'', v4) \<in> set (members (LoadBalancerReq_json r)) \<longleftrightarrow>
        (\<exists>s. req_StickySessions r = Some s \<and> v4 = StickySessions_json s))
   \<and> ((''ssl'', v5) \<in> set (members (LoadBalancerReq_json r)) \<longleftrightarrow>
        (\<exists>s. req_SSL r = Some s \<and> v5 = SSL_json s))
   \<and> ((''forwarding_rules'', v6) \<in> set (members (LoadBalancerReq_json r)) \<longleftrightarrow>
        (\<exists>xs. req_ForwardingRules r = Some xs \<and> xs \<noteq> []
           \<and> v6 = JArray (map ForwardingRule_json xs)))"
proof (intro conjI)
  show "(''ssl_redirect'', v1) \<in> set (members (LoadBalancerReq_json r)) \<longleftrightarrow>
        req_SSLRedirect r \<and> v1 = JBool True"
    by (rule ssl_redirect_member)
  show "(''proxy_protocol'', v2) \<in> set (members (LoadBalancerReq_json r)) \<longleftrightarrow>
        req_ProxyProtocol r \<and> v2 = JBool True"
    by (rule proxy_protocol_member)
  show "(''health_check'', v3) \<in> set (members (LoadBalancerReq_json r)) \<longleftrightarrow>
        (\<exists>h. req_HealthCheck r = Some h \<and> v3 = HealthCheck_json h)"
    by (rule health_check_member)
  show "(''sticky_session'', v4) \<in> set (members (LoadBalancerReq_json r)) \<longleftrightarrow>
        (\<exists>s. req_StickySessions r = Some s \<and> v4 = StickySessions_json s)"
    by (rule sticky_session_member)
  show "(''ssl'', v5) \<in> set (members (LoadBalancerReq_json r)) \<longleftrightarrow>
        (\<exists>s. req_SSL r = Some s \<and> v5 = SSL_json s)"
    by (rule ssl_member)
  show "(''forwarding_rules'', v6) \<in> set (members (LoadBalancerReq_json r)) \<longleftrightarrow>
        (\<exists>xs. req_ForwardingRules r = Some xs \<and> xs \<noteq> []
           \<and> v6 = JArray (map ForwardingRule_json xs))"
    by (rule forwarding_rules_member)
  show "has_key ''ssl_redirect'' (LoadBalancerReq_json r) \<longleftrightarrow> req_SSLRedirect r"
    by (rule has_key_ssl_redirect)
  show "has_key ''proxy_protocol'' (LoadBalancerReq_json r) \<longleftrightarrow> req_ProxyProtocol r"
    by (rule has_key_proxy_protocol)
  show "(''ssl_redirect'', JBool False) \<notin> set (members (LoadBalancerReq_json r))"
    by (simp add: ssl_redirect_member)
  show "(''proxy_protocol'', JBool False) \<notin> set (members (LoadBalancerReq_json r))"
    by (simp add: proxy_protocol_member)
  show "has_key ''health_check'' (LoadBalancerReq_json r) \<longleftrightarrow> req_HealthCheck r \<noteq> None"
    by (rule has_key_health_check)
  show "has_key ''sticky_session'' (LoadBalancerReq_json r) \<longleftrightarrow> req_StickySessions r \<noteq> None"
    by (rule has_key_sticky_session)
  show "has_key ''ssl'' (LoadBalancerReq_json r) \<longleftrightarrow> req_SSL r \<noteq> None"
    by (rule has_key_ssl)
  show "(''health_check'', JObject []) \<in> set (members (LoadBalancerReq_json
          (r\<lparr>req_HealthCheck := Some zero_HealthCheck\<rparr>)))"
    by (simp add: health_check_member zero_structs_json)
  show "(''sticky_session'', JObject []) \<in> set (members (LoadBalancerReq_json
          (r\<lparr>req_StickySessions := Some zero_StickySessions\<rparr>)))"
    by (simp add: sticky_session_member zero_structs_json)
  show "(''ssl'', JObject []) \<in> set (members (LoadBalancerReq_json
          (r\<lparr>req_SSL := Some zero_SSL\<rparr>)))"
    by (simp add: ssl_member zero_structs_json)
  show "has_key ''forwarding_rules'' (LoadBalancerReq_json r) \<longleftrightarrow>
        req_ForwardingRules r \<noteq> None \<and> req_ForwardingRules r \<noteq> Some []"
    by (rule has_key_forwarding_rules)
qed

section \<open>Paths\<close>

text \<open>
  C2. For every identifier and rule identifier, empty or malformed ones too, Get, Update
  and Delete use the collection root, a slash and the identifier; CreateForwardingRule
  and ListForwardingRules use that path followed by \<^verbatim>\<open>/forwarding-rules\<close>;
  GetForwardingRule and DeleteForwardingRule use the latter, a slash and the rule
  identifier. The builders are total and have no error result.
\<close>

theorem paths_built:
  "Get_uri ID = lbPath @ ''/'' @ ID
   \<and> Update_uri ID = lbPath @ ''/'' @ ID
   \<and> Delete_uri ID = lbPath @ ''/'' @ ID
   \<and> CreateForwardingRule_uri ID = Get_uri ID @ ''/forwarding-rules''
   \<and> ListForwardingRules_uri ID = Get_uri ID @ ''/forwarding-rules''
   \<and> GetForwardingRule_uri ID ruleID = ListForwardingRules_uri ID @ ''/'' @ ruleID
   \<and> DeleteForwardingRule_uri ID ruleID = ListForwardingRules_uri ID @ ''/'' @ ruleID"
  by (simp add: Get_uri_def Update_uri_def Delete_uri_def CreateForwardingRule_uri_def
      ListForwardingRules_uri_def GetForwardingRule_uri_def DeleteForwardingRule_uri_def
      extra_operands_def)

lemma paths_examples:
  "Get_uri ''lb-123'' = ''/v2/load-balancers/lb-123''"
  "GetForwardingRule_uri ''lb-123'' ''r1'' = ''/v2/load-balancers/lb-123/forwarding-rules/r1''"
  "Get_uri [] = ''/v2/load-balancers/''"
  "GetForwardingRule_uri ''%s'' ''a/../b'' = ''/v2/load-balancers/%s/forwarding-rules/a/../b''"
  by (simp_all add: Get_uri_def GetForwardingRule_uri_def lbPath_def extra_operands_def)


section \<open>Reading a response\<close>

lemma replying_simps:
  "NewRequest (replying resp) m uri b = Inr (plain_request m uri b)"
  "Exchange (replying resp) req n = (Inr resp, Suc n)"
  by (simp_all add: replying_def)






text \<open>
  A body that is the literal \<^verbatim>\<open>null\<close> is no object. Get, which hands over its
  envelope pointer, still returns nil and nil; Create, which hands over the address of
  that pointer, panics.
\<close>

lemma null_body:
  "Get (replying (Some JNull)) ID 0 = ((None, None), 1)"
  "Create (replying (Some JNull)) createReq 0 = (NilDereference, 1)"
  by (simp_all add: Create_def Get_def DoWithContext_def replying_simps Unmarshal_ptr_def
      Unmarshal_lbBase_def Unmarshal_struct_def new_lbBase_def)
















section \<open>Update\<close>

text \<open>
  C8. Update returns an error and nothing else. When the request is built and the
  exchange succeeds, it returns nil whatever the response body is: the body is handed
  to no decoder, so a body that carries the updated load balancer, one of another shape
  and one that is not JSON at all give the same result.
\<close>

theorem Update_discards_the_body:
  "NewRequest cl MethodPatch (Update_uri ID) (LoadBalancerReqBody updateReq) = Inr req
   \<Longrightarrow> Exchange cl req w = (Inr resp, w')
   \<Longrightarrow> Update cl ID updateReq w = (None, w')"
  by (simp add: Update_def DoWithContext_def)

theorem Update_discards_the_body_witness:
  "Update (replying (Some (JObject [(''load_balancer'', JObject [(''id'', JString ''lb-1'')])])))
       ''lb-1'' (Some req_example) 0 = (None, 1)
   \<and> Update (replying (Some (JArray []))) ''lb-1'' (Some req_example) 0 = (None, 1)
   \<and> Update (replying None) ''lb-1'' (Some req_example) 0 = (None, 1)"
  using Update_discards_the_body
    [where cl = "replying (Some (JObject [(''load_balancer'',
                   JObject [(''id'', JString ''lb-1'')])]))"
       and ID = "''lb-1''" and updateReq = "Some req_example" and w = 0 and w' = 1
       and req = "plain_request MethodPatch (Update_uri ''lb-1'')
                    (LoadBalancerReqBody (Some req_example))"
       and resp = "Some (JObject [(''load_balancer'', JObject [(''id'', JString ''lb-1'')])])"]
    Update_discards_the_body
    [where cl = "replying (Some (JArray []))"
       and ID = "''lb-1''" and updateReq = "Some req_example" and w = 0 and w' = 1
       and req = "plain_request MethodPatch (Update_uri ''lb-1'')
                    (LoadBalancerReqBody (Some req_example))"
       and resp = "Some (JArray [])"]
    Update_discards_the_body
    [where cl = "replying None"
       and ID = "''lb-1''" and updateReq = "Some req_example" and w = 0 and w' = 1
       and req = "plain_request MethodPatch (Update_uri ''lb-1'')
                    (LoadBalancerReqBody (Some req_example))"
       and resp = None]
  by (simp add: replying_simps)

section \<open>Errors\<close>


lemma DoWithContext_one_exchange:
  "snd (DoWithContext cl req dec out w) = snd (Exchange cl req w)"
  by (simp add: DoWithContext_def split: prod.splits sum.splits option.splits)





section \<open>The query string\<close>

lemma sent_DoWithContext:
  "snd (snd (DoWithContext (recording cl) req dec out (w, log))) = log @ [req]"
  by (simp add: DoWithContext_def recording_def split: prod.splits sum.splits option.splits)

lemma sent_List:
  "sent (List meta (recording cl) options (w, [])) =
     (case NewRequest cl MethodGet lbPath NilBody of
        Inl err \<Rightarrow> []
      | Inr req \<Rightarrow>
          (case query_Values options of
             Inl err \<Rightarrow> []
           | Inr newValues \<Rightarrow> [req\<lparr>URL := (URL req)\<lparr>RawQuery := Encode newValues\<rparr>\<rparr>]))"
proof (cases "NewRequest cl MethodGet lbPath NilBody")
  case (Inl err)
  then show ?thesis by (simp add: List_def sent_def recording_def)
next
  case (Inr req)
  show ?thesis
  proof (cases "query_Values options")
    case (Inl err)
    with Inr show ?thesis by (simp add: List_def sent_def recording_def)
  next
    case newValues: (Inr newValues)
    let ?req = "req\<lparr>URL := (URL req)\<lparr>RawQuery := Encode newValues\<rparr>\<rparr>"
    let ?run = "DoWithContext (recording cl) ?req
                  (Some (Unmarshal_ptr (Unmarshal_lbsBase meta))) (Some new_lbsBase) (w, [])"
    have built: "NewRequest (recording cl) MethodGet lbPath NilBody = Inr req"
      using Inr by (simp add: recording_def)
    have log: "snd (snd ?run) = [?req]"
      using sent_DoWithContext [of cl ?req _ _ w "[]"] by simp
    obtain e t w1 where run: "?run = ((e, t), w1)"
      by (metis surj_pair)
    with log have w1: "snd w1 = [?req]" by simp
    show ?thesis
      using Inr newValues built run w1
      by (cases e; cases t) (simp_all add: List_def sent_def)
  qed
qed

lemma sent_ListForwardingRules:
  "sent (ListForwardingRules meta (recording cl) ID options (w, [])) =
     (case NewRequest cl MethodGet (ListForwardingRules_uri ID) NilBody of
        Inl err \<Rightarrow> []
      | Inr req \<Rightarrow>
          (case query_Values options of
             Inl err \<Rightarrow> []
           | Inr newValues \<Rightarrow> [req\<lparr>URL := (URL req)\<lparr>RawQuery := Encode newValues\<rparr>\<rparr>]))"
proof (cases "NewRequest cl MethodGet (ListForwardingRules_uri ID) NilBody")
  case (Inl err)
  then show ?thesis by (simp add: ListForwardingRules_def sent_def recording_def)
next
  case (Inr req)
  show ?thesis
  proof (cases "query_Values options")
    case (Inl err)
    with Inr show ?thesis by (simp add: ListForwardingRules_def sent_def recording_def)
  next
    case newValues: (Inr newValues)
    let ?req = "req\<lparr>URL := (URL req)\<lparr>RawQuery := Encode newValues\<rparr>\<rparr>"
    let ?run = "DoWithContext (recording cl) ?req
                  (Some (Unmarshal_ptr (Unmarshal_lbRulesBase meta))) (Some new_lbRulesBase)
                  (w, [])"
    have built: "NewRequest (recording cl) MethodGet (ListForwardingRules_uri ID) NilBody
                   = Inr req"
      using Inr by (simp add: recording_def)
    have log: "snd (snd ?run) = [?req]"
      using sent_DoWithContext [of cl ?req _ _ w "[]"] by simp
    obtain e t w1 where run: "?run = ((e, t), w1)"
      by (metis surj_pair)
    with log have w1: "snd w1 = [?req]" by simp
    show ?thesis
      using Inr newValues built run w1
      by (cases e; cases t) (simp_all add: ListForwardingRules_def sent_def)
  qed
qed

lemma Encode_empty: "Encode [] = []"
  by (simp add: Encode_def)

text \<open>
  C6. For a nil options pointer and for the zero options value, encoding the options
  does not fail and gives no parameter, the encoded query is the empty string, and the
  one request that List, and ListForwardingRules, sends carries the empty string as its
  raw query.
\<close>

theorem default_options_empty_query:
  assumes "options = None \<or> options = Some zero_ListOptions"
  shows "query_Values options = Inr []
     \<and> Encode [] = []
     \<and> (NewRequest cl MethodGet lbPath NilBody = Inr req1 \<longrightarrow>
          sent (List meta (recording cl) options (w, []))
            = [req1\<lparr>URL := (URL req1)\<lparr>RawQuery := []\<rparr>\<rparr>])
     \<and> (NewRequest cl MethodGet (ListForwardingRules_uri ID) NilBody = Inr req2 \<longrightarrow>
          sent (ListForwardingRules meta (recording cl) ID options (w, []))
            = [req2\<lparr>URL := (URL req2)\<lparr>RawQuery := []\<rparr>\<rparr>])"
proof -
  from assms have no_params: "query_Values options = Inr []"
    by (auto simp: query_Values_def zero_ListOptions_def)
  show ?thesis
    by (simp add: no_params Encode_empty sent_List sent_ListForwardingRules)
qed

theorem default_options_empty_query_witness:
  "query_Values None = Inr []
   \<and> query_Values (Some zero_ListOptions) = Inr []
   \<and> sent (List Inr (recording (replying (Some page_body))) None (0, []))
       = [\<lparr>Method = MethodGet, URL = \<lparr>Path = ''/v2/load-balancers'', RawQuery = []\<rparr>,
           Body = None\<rparr>]
   \<and> sent (List Inr (recording (replying (Some page_body))) (Some zero_ListOptions) (0, []))
       = [\<lparr>Method = MethodGet, URL = \<lparr>Path = ''/v2/load-balancers'', RawQuery = []\<rparr>,
           Body = None\<rparr>]
   \<and> sent (ListForwardingRules Inr (recording (replying (Some rules_page_body))) ''lb-1''
             None (0, []))
       = [\<lparr>Method = MethodGet,
           URL = \<lparr>Path = ''/v2/load-balancers/lb-1/forwarding-rules'', RawQuery = []\<rparr>,
           Body = None\<rparr>]
   \<and> sent (ListForwardingRules Inr (recording (replying (Some rules_page_body))) ''lb-1''
             (Some zero_ListOptions) (0, []))
       = [\<lparr>Method = MethodGet,
           URL = \<lparr>Path = ''/v2/load-balancers/lb-1/forwarding-rules'', RawQuery = []\<rparr>,
           Body = None\<rparr>]"
  using default_options_empty_query
    [where options = None and cl = "replying (Some page_body)" and w = 0 and meta = Inr
       and ?req1.0 = "plain_request MethodGet lbPath NilBody"]
    default_options_empty_query
    [where options = "Some zero_ListOptions" and cl = "replying (Some page_body)" and w = 0
       and meta = Inr and ?req1.0 = "plain_request MethodGet lbPath NilBody"]
    default_options_empty_query
    [where options = None and cl = "replying (Some rules_page_body)" and w = 0 and meta = Inr
       and ID = "''lb-1''"
       and ?req2.0 = "plain_request MethodGet (ListForwardingRules_uri ''lb-1'') NilBody"]
    default_options_empty_query
    [where options = "Some zero_ListOptions" and cl = "replying (Some rules_page_body)"
       and w = 0 and meta = Inr and ID = "''lb-1''"
       and ?req2.0 = "plain_request MethodGet (ListForwardingRules_uri ''lb-1'') NilBody"]
  by (simp add: replying_simps plain_request_def body_json_def lbPath_def
      ListForwardingRules_uri_def extra_operands_def)

lemma Encode_permutation:
  assumes "distinct (map fst v)" and "mset v' = mset v"
  shows "Encode v' = Encode v"
proof -
  from assms(2) have "set v' = set v" by (rule mset_eq_setD)
  with assms(1) have inj: "inj_on fst (set v')" by (simp add: distinct_map)
  have same: "mset v' = mset (sort_key fst v)" using assms(2) by simp
  have "sorted (map fst (sort_key fst v))" by simp
  with same inj have "sort_key fst v' = sort_key fst v" by (rule sort_key_inj_key_eq)
  then show ?thesis by (simp add: Encode_def)
qed

text \<open>
  C7. The encoded query does not depend on the order in which the entries of the
  parameter map are met: two enumerations of one map (distinct names, the same entries)
  encode to the same string. And the requests a list operation sends are a function of
  the options and the request builder alone: two invocations with the same options send
  the same requests, whatever the state of the world and the answers of the server.
\<close>

theorem query_encoding_deterministic:
  "(distinct (map fst v) \<and> mset v' = mset v \<longrightarrow> Encode v' = Encode v)
   \<and> (NewRequest cl' = NewRequest cl \<longrightarrow>
        sent (List meta' (recording cl') options (w', []))
          = sent (List meta (recording cl) options (w, []))
        \<and> sent (ListForwardingRules meta' (recording cl') ID options (w', []))
          = sent (ListForwardingRules meta (recording cl) ID options (w, [])))"
  by (simp add: Encode_permutation sent_List sent_ListForwardingRules)


lemma page_options_values:
  "query_Values (Some page_options) = Inr [(''cursor'', [''abc'']), (''limit'', [''25''])]"
  by code_simp

lemma page_options_encoded:
  "Encode [(''cursor'', [''abc'']), (''limit'', [''25''])] = ''cursor=abc&limit=25''"
  "Encode [(''limit'', [''25'']), (''cursor'', [''abc''])] = ''cursor=abc&limit=25''"
  by code_simp+

theorem query_encoding_deterministic_witness:
  "distinct (map fst [(''cursor'', [''abc'']), (''limit'', [''25''])])
   \<and> mset [(''limit'', [''25'']), (''cursor'', [''abc''])]
       = mset [(''cursor'', [''abc'']), (''limit'', [''25''])]
   \<and> Encode [(''limit'', [''25'']), (''cursor'', [''abc''])] = ''cursor=abc&limit=25''
   \<and> Encode [(''cursor'', [''abc'']), (''limit'', [''25''])] = ''cursor=abc&limit=25''
   \<and> NewRequest (failing_exchange not_found) = NewRequest (replying (Some page_body))
   \<and> sent (List Inr (recording (failing_exchange not_found)) (Some page_options) (7, []))
       = [\<lparr>Method = MethodGet,
           URL = \<lparr>Path = ''/v2/load-balancers'', RawQuery = ''cursor=abc&limit=25''\<rparr>,
           Body = None\<rparr>]
   \<and> sent (List Inr (recording (replying (Some page_body))) (Some page_options) (0, []))
       = [\<lparr>Method = MethodGet,
           URL = \<lparr>Path = ''/v2/load-balancers'', RawQuery = ''cursor=abc&limit=25''\<rparr>,
           Body = None\<rparr>]"
  using query_encoding_deterministic
    [where v = "[(''cursor'', [''abc'']), (''limit'', [''25''])]"
       and v' = "[(''limit'', [''25'']), (''cursor'', [''abc''])]"
       and cl = "replying (Some page_body)" and cl' = "failing_exchange not_found"
       and options = "Some page_options" and w = 0 and w' = 7 and meta = Inr and meta' = Inr]
    page_options_values page_options_encoded
  by (simp add: sent_List replying_def failing_exchange_def plain_request_def body_json_def
      lbPath_def)


end
